theory Spec2Isabelle
  imports
    Main
    "HOL-Library.Char_ord"
    "HOL-Library.List_Lexorder"
    "HOL-Library.Multiset"
begin

section \<open>JavaScript objects as ordered property lists\<close>

text \<open>
  The scripts read \<^verbatim>\<open>world.json\<close> with \<^verbatim>\<open>JSON.parse\<close>, work on plain JavaScript objects and
  write the result with \<^verbatim>\<open>JSON.stringify\<close>. An object is modelled by the list of its own
  properties in the order in which they were created. A \<^typ>\<open>char\<close> stands for one code
  unit of a JavaScript string, so \<^const>\<open>length\<close> is \<^verbatim>\<open>.length\<close> and the order of
  \<^theory_text>\<open>List_Lexorder\<close> over \<^theory_text>\<open>Char_ord\<close> is the comparison of strings by code units,
  which is what \<^verbatim>\<open>Array.prototype.sort()\<close> without a comparator uses.
\<close>

type_synonym 'v obj = "(string \<times> 'v) list"

text \<open>
  An array index is the canonical decimal numeral of an integer from 0 to \<open>2^32 - 2\<close>:
  digits only, no leading zero unless the numeral is \<^verbatim>\<open>0\<close> itself.
\<close>

definition isDigit :: "char \<Rightarrow> bool" where
  "isDigit c \<longleftrightarrow> CHR ''0'' \<le> c \<and> c \<le> CHR ''9''"

definition digitValue :: "char \<Rightarrow> int" where
  "digitValue c = of_char c - 48"

definition decimalValue :: "string \<Rightarrow> int" where
  "decimalValue k = foldl (\<lambda>n c. 10 * n + digitValue c) 0 k"

fun isArrayIndex :: "string \<Rightarrow> bool" where
  "isArrayIndex [] = False"
| "isArrayIndex [c] = isDigit c"
| "isArrayIndex (c # cs) =
     (c \<noteq> CHR ''0'' \<and> list_all isDigit (c # cs) \<and> decimalValue (c # cs) < 4294967295)"

text \<open>
  The order in which \<^verbatim>\<open>Object.keys\<close>, \<^verbatim>\<open>Object.values\<close>, \<^verbatim>\<open>Object.entries\<close>, \<^verbatim>\<open>for ... in\<close>
  and \<^verbatim>\<open>JSON.stringify\<close> go through the own properties of an ordinary object: the array
  indices first, in ascending numeric order, then every other string key in the order of
  creation.
\<close>

definition Object_entries :: "'v obj \<Rightarrow> (string \<times> 'v) list" where
  "Object_entries ob =
     sort_key (\<lambda>p. decimalValue (fst p)) (filter (\<lambda>p. isArrayIndex (fst p)) ob)
     @ filter (\<lambda>p. \<not> isArrayIndex (fst p)) ob"

definition Object_keys :: "'v obj \<Rightarrow> string list" where
  "Object_keys ob = map fst (Object_entries ob)"

definition Object_values :: "'v obj \<Rightarrow> 'v list" where
  "Object_values ob = map snd (Object_entries ob)"

text \<open>Property read \<^verbatim>\<open>ob[key]\<close> of an own property; \<^const>\<open>None\<close> is \<^verbatim>\<open>undefined\<close>.\<close>

definition obj_get :: "'v obj \<Rightarrow> string \<Rightarrow> 'v option" where
  "obj_get ob key = map_of ob key"

text \<open>
  Property write \<^verbatim>\<open>ob[key] = v\<close> on an ordinary object whose prototype is
  \<^verbatim>\<open>Object.prototype\<close>: an existing own property keeps its place and gets the new value, a
  new one is created last. The key \<^verbatim>\<open>__proto__\<close> is the accessor inherited from
  \<^verbatim>\<open>Object.prototype\<close>: assigning to it creates no own property.
\<close>

fun obj_put :: "string \<Rightarrow> 'v \<Rightarrow> 'v obj \<Rightarrow> 'v obj" where
  "obj_put key v [] = [(key, v)]"
| "obj_put key v (p # ps) = (if fst p = key then (key, v) # ps else p # obj_put key v ps)"

definition obj_set :: "'v obj \<Rightarrow> string \<Rightarrow> 'v \<Rightarrow> 'v obj" where
  "obj_set ob key v = (if key = ''__proto__'' then ob else obj_put key v ob)"

section \<open>The key-sorting script\<close>

text \<open>
  \<^verbatim>\<open>Object.keys(data.regions).forEach(key => { if (key.length === 3) ... else ... })\<close>,
  then \<^verbatim>\<open>threeCharKeys.sort(); longerKeys.sort()\<close>. The argument \<open>rs\<close> is the object
  \<^verbatim>\<open>data.regions\<close>.
\<close>

definition threeCharKeys :: "'v obj \<Rightarrow> string list" where
  "threeCharKeys rs = sort (filter (\<lambda>key. length key = 3) (Object_keys rs))"

definition longerKeys :: "'v obj \<Rightarrow> string list" where
  "longerKeys rs = sort (filter (\<lambda>key. length key \<noteq> 3) (Object_keys rs))"

definition sortedKeys :: "'v obj \<Rightarrow> string list" where
  "sortedKeys rs = threeCharKeys rs @ longerKeys rs"

text \<open>
  \<^verbatim>\<open>sortedKeys.reduce((acc, key) => { acc[key] = data.regions[key]; return acc; }, {})\<close>.
  Every key comes from \<^verbatim>\<open>Object.keys(data.regions)\<close>, so the read never yields
  \<^verbatim>\<open>undefined\<close>; a property holding \<^verbatim>\<open>undefined\<close> is left out by \<^verbatim>\<open>JSON.stringify\<close>, which
  is what the \<^const>\<open>None\<close> branch models.
\<close>

definition reduceStep :: "'v obj \<Rightarrow> 'v obj \<Rightarrow> string \<Rightarrow> 'v obj" where
  "reduceStep rs acc key =
     (case obj_get rs key of Some v \<Rightarrow> obj_set acc key v | None \<Rightarrow> acc)"

definition sortedRegions :: "'v obj \<Rightarrow> 'v obj" where
  "sortedRegions rs = foldl (reduceStep rs) [] (sortedKeys rs)"

section \<open>The dataset of the conversion script\<close>

text \<open>
  The interfaces of \<^verbatim>\<open>convert-wkt-to-svg.ts\<close>. The dev and the prod form of areas, regions
  and datasets have the same shape and differ in the type of an area, so each pair of
  interfaces is one record with a type parameter; the source's names are the type
  synonyms. A field marked \<^verbatim>\<open>?\<close> is an \<^typ>\<open>'a option\<close>, \<^const>\<open>None\<close> being \<^verbatim>\<open>undefined\<close>.
  \<^verbatim>\<open>RegionDev.areas\<close> is declared without \<^verbatim>\<open>?\<close>, but \<^verbatim>\<open>convertWorldData\<close> tests it at run
  time, so it is optional in the dev form.
\<close>

record SourceMetadata =
  layerName :: string
  entityIdentifier :: string
  remark :: "string option"

record AreaDev =
  areaWKT :: string
  sourceMetadata :: SourceMetadata

record AreaProd =
  areaSVG :: string

record 'a Areas =
  low_res :: "'a option"
  medium_res :: "'a option"
  high_res :: "'a option"

type_synonym AreasDev = "AreaDev Areas"
type_synonym AreasProd = "AreaProd Areas"

datatype ReferenceType = regionReference | territoryReference

record AreaReference =
  referenceType :: ReferenceType
  referenceId :: string

datatype ControlType = CONTROLLED | CLAIMED

record DisputedRegion =
  controlType :: ControlType
  areaReference :: AreaReference

record 'as Region =
  regionName :: string
  areas :: 'as
  disputedRegions :: "DisputedRegion list option"

type_synonym RegionDev = "AreasDev option Region"
type_synonym RegionProd = "AreasProd Region"

record 'r WorldData =
  commonTerritories :: "string obj option"
  regions :: "'r obj"

type_synonym WorldDataDev = "RegionDev WorldData"

record WorldDataProd = "RegionProd WorldData" +
  width :: nat
  height :: nat

definition WIDTH :: nat where
  "WIDTH = 1600"

definition HEIGHT :: nat where
  "HEIGHT = 900"

section \<open>The libraries the conversion script calls\<close>

text \<open>
  The script calls two libraries that are not part of the repository; they are parameters
  of the model. \<open>parse\<close> is \<^verbatim>\<open>wellknown\<close>'s parser, which returns a GeoJSON geometry or
  \<^verbatim>\<open>null\<close>. \<open>fitSize size features\<close> is
  \<^verbatim>\<open>d3.geoMercator().fitSize(size, featureCollection)\<close> for the collection that wraps the
  geometries \<open>features\<close>. \<open>geoPath projection\<close> is \<^verbatim>\<open>d3.geoPath().projection(projection)\<close>,
  a path generator that maps a geometry to a path string or to \<^verbatim>\<open>null\<close>. Both libraries
  are taken to compute their result from their arguments alone and to hand failure back
  as \<^verbatim>\<open>null\<close>, which is how the script treats them.
\<close>

record ('g, 'p) geo_lib =
  parse :: "string \<Rightarrow> 'g option"
  fitSize :: "nat \<times> nat \<Rightarrow> 'g list \<Rightarrow> 'p"
  geoPath :: "'p \<Rightarrow> 'g \<Rightarrow> string option"

text \<open>
  The exceptions: \<open>Error\<close> with its message is what the script throws itself,
  \<open>TypeError\<close> is what reading a property of \<^verbatim>\<open>undefined\<close> or calling \<^verbatim>\<open>undefined\<close> throws.
  Nothing in the script catches either.
\<close>

datatype js_error = Error string | TypeError string

text \<open>
  The one module-level variable, \<^verbatim>\<open>let globalPathGenerator: d3.GeoPath\<close>; it is
  \<^verbatim>\<open>undefined\<close> until \<^verbatim>\<open>initializeGlobalProjection\<close> assigns it.
\<close>

record 'g globals =
  globalPathGenerator :: "('g \<Rightarrow> string option) option"

section \<open>The conversion script\<close>

text \<open>\<^verbatim>\<open>region.areas?.['high-res']?.areaWKT\<close>\<close>

definition highResWKT :: "RegionDev \<Rightarrow> string option" where
  "highResWKT region =
     (case areas region of
        None \<Rightarrow> None
      | Some areasDev \<Rightarrow>
          (case high_res areasDev of None \<Rightarrow> None | Some areaDev \<Rightarrow> Some (areaWKT areaDev)))"

text \<open>
  The loop of \<^verbatim>\<open>initializeGlobalProjection\<close> over \<^verbatim>\<open>Object.values(worldDataDev.regions)\<close>:
  a region whose high-resolution text is missing, empty (an empty string is falsy) or
  unparsable is passed over; the others are pushed onto \<^verbatim>\<open>allFeatures\<close>.
\<close>

fun collectFeatures :: "('g, 'p) geo_lib \<Rightarrow> RegionDev list \<Rightarrow> 'g list \<Rightarrow> 'g list" where
  "collectFeatures L [] allFeatures = allFeatures"
| "collectFeatures L (region # rest) allFeatures =
     (case highResWKT region of
        None \<Rightarrow> collectFeatures L rest allFeatures
      | Some wkt \<Rightarrow>
          if wkt = [] then collectFeatures L rest allFeatures
          else (case parse L wkt of
                  None \<Rightarrow> collectFeatures L rest allFeatures
                | Some geojson \<Rightarrow> collectFeatures L rest (allFeatures @ [geojson])))"

definition initializeGlobalProjection ::
    "('g, 'p) geo_lib \<Rightarrow> WorldDataDev \<Rightarrow> 'g globals \<Rightarrow> 'g globals" where
  "initializeGlobalProjection L worldDataDev s =
     (let allFeatures = collectFeatures L (Object_values (regions worldDataDev)) [];
          projection = fitSize L (WIDTH, HEIGHT) allFeatures
      in s\<lparr>globalPathGenerator := Some (geoPath L projection)\<rparr>)"

text \<open>
  \<^verbatim>\<open>convertWKTToSVG\<close> and its callers read the global and may throw, so they take the
  globals and return either the exception or the result with the globals after the call.
  \<^verbatim>\<open>wkt.substring(0, 100)\<close> is \<^term>\<open>take 100 wkt\<close>; \<^verbatim>\<open>!svgPath\<close> holds for \<^verbatim>\<open>null\<close> and for the
  empty string.
\<close>

definition convertWKTToSVG ::
    "('g, 'p) geo_lib \<Rightarrow> string \<Rightarrow> 'g globals \<Rightarrow> js_error + string \<times> 'g globals" where
  "convertWKTToSVG L wkt s =
     (case parse L wkt of
        None \<Rightarrow> Inl (Error (''Failed to parse WKT: '' @ take 100 wkt @ ''...''))
      | Some geojson \<Rightarrow>
          (case globalPathGenerator s of
             None \<Rightarrow> Inl (TypeError ''globalPathGenerator is not a function'')
           | Some generator \<Rightarrow>
               (case generator geojson of
                  None \<Rightarrow>
                    Inl (Error (''Failed to generate SVG path for WKT: '' @ take 100 wkt @ ''...''))
                | Some svgPath \<Rightarrow>
                    if svgPath = []
                    then Inl (Error (''Failed to generate SVG path for WKT: ''
                                     @ take 100 wkt @ ''...''))
                    else Inr (svgPath, s))))"

text \<open>
  The same function as a relation between a call and its outcome, for statements about
  more than one call. Here a library call is a relation too: \<open>parse_call wkt g\<close> says that
  parsing \<open>wkt\<close> can return \<open>g\<close>, and the global holds, once assigned, the relation between a
  geometry and what the path generator can return for it. The last argument is the global
  after the call; the function has no assignment to it.
\<close>

inductive convertWKTToSVG_call ::
    "(string \<Rightarrow> 'g option \<Rightarrow> bool) \<Rightarrow> ('g \<Rightarrow> string option \<Rightarrow> bool) option \<Rightarrow> string \<Rightarrow>
     js_error + string \<Rightarrow> ('g \<Rightarrow> string option \<Rightarrow> bool) option \<Rightarrow> bool"
  for parse_call :: "string \<Rightarrow> 'g option \<Rightarrow> bool"
where
  parse_null:
    "parse_call wkt None \<Longrightarrow>
     convertWKTToSVG_call parse_call global wkt
       (Inl (Error (''Failed to parse WKT: '' @ take 100 wkt @ ''...''))) global"
| not_a_function:
    "parse_call wkt (Some geojson) \<Longrightarrow>
     convertWKTToSVG_call parse_call None wkt
       (Inl (TypeError ''globalPathGenerator is not a function'')) None"
| path_null:
    "parse_call wkt (Some geojson) \<Longrightarrow> generator_call geojson None \<Longrightarrow>
     convertWKTToSVG_call parse_call (Some generator_call) wkt
       (Inl (Error (''Failed to generate SVG path for WKT: '' @ take 100 wkt @ ''...'')))
       (Some generator_call)"
| path_empty:
    "parse_call wkt (Some geojson) \<Longrightarrow> generator_call geojson (Some []) \<Longrightarrow>
     convertWKTToSVG_call parse_call (Some generator_call) wkt
       (Inl (Error (''Failed to generate SVG path for WKT: '' @ take 100 wkt @ ''...'')))
       (Some generator_call)"
| path:
    "parse_call wkt (Some geojson) \<Longrightarrow> generator_call geojson (Some svgPath) \<Longrightarrow>
     svgPath \<noteq> [] \<Longrightarrow>
     convertWKTToSVG_call parse_call (Some generator_call) wkt (Inr svgPath)
       (Some generator_call)"

definition convertAreaDev ::
    "('g, 'p) geo_lib \<Rightarrow> AreaDev \<Rightarrow> 'g globals \<Rightarrow> js_error + AreaProd \<times> 'g globals" where
  "convertAreaDev L areaDev s =
     (case convertWKTToSVG L (areaWKT areaDev) s of
        Inl e \<Rightarrow> Inl e
      | Inr (svgPath, s') \<Rightarrow> Inr (\<lparr>areaSVG = svgPath\<rparr>, s'))"

text \<open>
  Only \<^verbatim>\<open>'medium-res'\<close> is converted; the other two lines of the object literal are
  commented out in the source. \<^verbatim>\<open>convertAreaDev(undefined)\<close> would read \<^verbatim>\<open>areaWKT\<close> of
  \<^verbatim>\<open>undefined\<close>.
\<close>

definition convertAreasDev ::
    "('g, 'p) geo_lib \<Rightarrow> AreasDev \<Rightarrow> 'g globals \<Rightarrow> js_error + AreasProd \<times> 'g globals" where
  "convertAreasDev L areasDev s =
     (case medium_res areasDev of
        None \<Rightarrow> Inl (TypeError ''Cannot read properties of undefined (reading areaWKT)'')
      | Some areaDev \<Rightarrow>
          (case convertAreaDev L areaDev s of
             Inl e \<Rightarrow> Inl e
           | Inr (areaProd, s') \<Rightarrow>
               Inr (\<lparr>low_res = None, medium_res = Some areaProd, high_res = None\<rparr>, s')))"

definition convertRegionDev ::
    "('g, 'p) geo_lib \<Rightarrow> RegionDev \<Rightarrow> 'g globals \<Rightarrow> js_error + RegionProd \<times> 'g globals" where
  "convertRegionDev L regionDev s =
     (case areas regionDev of
        None \<Rightarrow> Inl (TypeError ''Cannot read properties of undefined (reading medium-res)'')
      | Some areasDev \<Rightarrow>
          (case convertAreasDev L areasDev s of
             Inl e \<Rightarrow> Inl e
           | Inr (areasProd, s') \<Rightarrow>
               (let regionProd = \<lparr>regionName = regionName regionDev, areas = areasProd,
                                  disputedRegions = None\<rparr>
                in case disputedRegions regionDev of
                     None \<Rightarrow> Inr (regionProd, s')
                   | Some d \<Rightarrow> Inr (regionProd\<lparr>disputedRegions := Some d\<rparr>, s'))))"

text \<open>
  The test of line 168,
  \<^verbatim>\<open>regionCode.length > 3 || !worldDataDev.regions[regionCode].areas ||
  worldDataDev.regions[regionCode].areas["medium-res"] === undefined\<close>, evaluated from the left.
\<close>

definition skipRegion :: "RegionDev obj \<Rightarrow> string \<Rightarrow> js_error + bool" where
  "skipRegion devRegions regionCode =
     (if 3 < length regionCode then Inr True
      else case obj_get devRegions regionCode of
             None \<Rightarrow> Inl (TypeError ''Cannot read properties of undefined (reading areas)'')
           | Some r \<Rightarrow>
               (case areas r of
                  None \<Rightarrow> Inr True
                | Some areasDev \<Rightarrow> Inr (medium_res areasDev = None)))"

text \<open>
  The loop \<^verbatim>\<open>for (const [regionCode, regionDev] of Object.entries(worldDataDev.regions))\<close>;
  \<open>prodRegions\<close> is \<^verbatim>\<open>worldDataProd.regions\<close>. The \<^verbatim>\<open>console.log\<close> calls are left out.
\<close>

fun convertRegions ::
    "('g, 'p) geo_lib \<Rightarrow> RegionDev obj \<Rightarrow> (string \<times> RegionDev) list \<Rightarrow> RegionProd obj \<Rightarrow>
     'g globals \<Rightarrow> js_error + RegionProd obj \<times> 'g globals" where
  "convertRegions L devRegions [] prodRegions s = Inr (prodRegions, s)"
| "convertRegions L devRegions ((regionCode, regionDev) # rest) prodRegions s =
     (case skipRegion devRegions regionCode of
        Inl e \<Rightarrow> Inl e
      | Inr True \<Rightarrow> convertRegions L devRegions rest prodRegions s
      | Inr False \<Rightarrow>
          (case convertRegionDev L regionDev s of
             Inl e \<Rightarrow> Inl e
           | Inr (regionProd, s') \<Rightarrow>
               convertRegions L devRegions rest (obj_set prodRegions regionCode regionProd) s'))"

definition convertWorldData ::
    "('g, 'p) geo_lib \<Rightarrow> WorldDataDev \<Rightarrow> 'g globals \<Rightarrow> js_error + WorldDataProd \<times> 'g globals" where
  "convertWorldData L worldDataDev s =
     (let s1 = initializeGlobalProjection L worldDataDev s;
          worldDataProd0 = \<lparr>commonTerritories = None, regions = [],
                            width = WIDTH, height = HEIGHT\<rparr>;
          worldDataProd = (case commonTerritories worldDataDev of
                             None \<Rightarrow> worldDataProd0
                           | Some c \<Rightarrow> worldDataProd0\<lparr>commonTerritories := Some c\<rparr>)
      in case convertRegions L (regions worldDataDev) (Object_entries (regions worldDataDev))
                (regions worldDataProd) s1 of
           Inl e \<Rightarrow> Inl e
         | Inr (prodRegions, s2) \<Rightarrow> Inr (worldDataProd\<lparr>regions := prodRegions\<rparr>, s2))"

section \<open>The resolution-stripping script\<close>

text \<open>
  The body of the loop once \<^verbatim>\<open>region\<close> has been read:
  \<^verbatim>\<open>if (region.areas && region.areas['high-res'])
    region.areas = { 'high-res': region.areas['high-res'] }\<close>.
\<close>

definition stripRegion :: "RegionDev \<Rightarrow> RegionDev" where
  "stripRegion region =
     (case areas region of
        None \<Rightarrow> region
      | Some areasDev \<Rightarrow>
          (case high_res areasDev of
             None \<Rightarrow> region
           | Some h \<Rightarrow>
               region\<lparr>areas := Some \<lparr>low_res = None, medium_res = None, high_res = Some h\<rparr>\<rparr>))"

text \<open>
  The assignment changes the region object that \<^verbatim>\<open>data.regions\<close> holds under the key; the
  property of \<^verbatim>\<open>data.regions\<close> itself keeps its place.
\<close>

definition obj_modify :: "string \<Rightarrow> ('v \<Rightarrow> 'v) \<Rightarrow> 'v obj \<Rightarrow> 'v obj" where
  "obj_modify key f ob = map (\<lambda>p. if fst p = key then (fst p, f (snd p)) else p) ob"

text \<open>
  \<^verbatim>\<open>for (const regionCode in data.regions) { const region = data.regions[regionCode]; ... }\<close>;
  reading \<^verbatim>\<open>areas\<close> of a region that is \<^verbatim>\<open>undefined\<close> would throw.
\<close>

fun stripLoop :: "string list \<Rightarrow> RegionDev obj \<Rightarrow> js_error + RegionDev obj" where
  "stripLoop [] rs = Inr rs"
| "stripLoop (regionCode # rest) rs =
     (case obj_get rs regionCode of
        None \<Rightarrow> Inl (TypeError ''Cannot read properties of undefined (reading areas)'')
      | Some region \<Rightarrow> stripLoop rest (obj_modify regionCode stripRegion rs))"

definition stripHighRes :: "WorldDataDev \<Rightarrow> js_error + WorldDataDev" where
  "stripHighRes data =
     (case stripLoop (Object_keys (regions data)) (regions data) of
        Inl e \<Rightarrow> Inl e
      | Inr rs \<Rightarrow> Inr (data\<lparr>regions := rs\<rparr>))"

section \<open>The specification's words\<close>

text \<open>
  The order that the specification gives for the key-sorting step: all 3-character keys
  first, alphabetically, then all longer keys, alphabetically.
\<close>

definition spec_key_order :: "string list \<Rightarrow> string list" where
  "spec_key_order ks =
     sort (filter (\<lambda>key. length key = 3) ks) @ sort (filter (\<lambda>key. 3 < length key) ks)"

text \<open>
  The inclusion test that the specification gives for the conversion: the code has at most
  3 characters, the region has \<^verbatim>\<open>areas\<close>, and the areas have a \<^verbatim>\<open>medium-res\<close> entry.
\<close>

definition spec_included :: "string \<Rightarrow> RegionDev \<Rightarrow> bool" where
  "spec_included regionCode region \<longleftrightarrow>
     length regionCode \<le> 3 \<and>
     (case areas region of None \<Rightarrow> False | Some areasDev \<Rightarrow> medium_res areasDev \<noteq> None)"

section \<open>Concrete inputs\<close>

text \<open>
  A small stand-in for the two libraries, used to run the scripts on concrete datasets: a
  text parses when it starts with \<^verbatim>\<open>POLYGON\<close>, the geometry is the rest of the text, the
  projection is the number of geometries it was fitted to together with the canvas size,
  and the path generator draws nothing for \<^verbatim>\<open>POLYGON EMPTY\<close>.
\<close>

definition demo_lib :: "(string, (nat \<times> nat) \<times> nat) geo_lib" where
  "demo_lib =
     \<lparr>parse = (\<lambda>wkt. if take 7 wkt = ''POLYGON'' then Some (drop 7 wkt) else None),
      fitSize = (\<lambda>size features. (size, length features)),
      geoPath = (\<lambda>projection geojson.
                   if geojson = '' EMPTY'' then None else Some (''M'' @ geojson @ ''Z''))\<rparr>"

definition demoArea :: "string \<Rightarrow> AreaDev" where
  "demoArea wkt =
     \<lparr>areaWKT = wkt,
      sourceMetadata = \<lparr>layerName = ''layer'', entityIdentifier = ''id'', remark = None\<rparr>\<rparr>"

definition demoDispute :: "DisputedRegion list" where
  "demoDispute =
     [\<lparr>controlType = CLAIMED,
       areaReference = \<lparr>referenceType = regionReference, referenceId = ''esp''\<rparr>\<rparr>]"

text \<open>A region with all three resolutions, one with the medium one only, one with the low one only.\<close>

definition fullRegion :: RegionDev where
  "fullRegion =
     \<lparr>regionName = ''France'',
      areas = Some \<lparr>low_res = Some (demoArea ''POLYGON((0 0,1 0,1 1,0 0))''),
                    medium_res = Some (demoArea ''POLYGON((0 0,2 0,2 2,0 0))''),
                    high_res = Some (demoArea ''POLYGON((0 0,3 0,3 3,0 0))'')\<rparr>,
      disputedRegions = Some demoDispute\<rparr>"

definition mediumRegion :: RegionDev where
  "mediumRegion =
     \<lparr>regionName = ''Andorra'',
      areas = Some \<lparr>low_res = None,
                    medium_res = Some (demoArea ''POLYGON((5 5,6 5,6 6,5 5))''),
                    high_res = None\<rparr>,
      disputedRegions = None\<rparr>"

definition lowRegion :: RegionDev where
  "lowRegion =
     \<lparr>regionName = ''Atlantis'',
      areas = Some \<lparr>low_res = Some (demoArea ''POLYGON((7 7,8 7,8 8,7 7))''),
                    medium_res = None, high_res = None\<rparr>,
      disputedRegions = None\<rparr>"

text \<open>A region whose medium-resolution text is not Well-Known Text.\<close>

definition brokenRegion :: RegionDev where
  "brokenRegion =
     \<lparr>regionName = ''Broken'',
      areas = Some \<lparr>low_res = None, medium_res = Some (demoArea ''POLYGO((''), high_res = None\<rparr>,
      disputedRegions = None\<rparr>"

definition demoWorld :: WorldDataDev where
  "demoWorld =
     \<lparr>commonTerritories = Some [(''metropole'', ''fra'')],
      regions = [(''atl'', lowRegion), (''fra'', fullRegion), (''fra-idf'', fullRegion)]\<rparr>"

definition noHighResWorld :: WorldDataDev where
  "noHighResWorld = \<lparr>commonTerritories = None, regions = [(''and'', mediumRegion)]\<rparr>"

definition brokenWorld :: WorldDataDev where
  "brokenWorld =
     \<lparr>commonTerritories = None, regions = [(''bad'', brokenRegion), (''fra'', fullRegion)]\<rparr>"

definition lowOnlyWorld :: WorldDataDev where
  "lowOnlyWorld = \<lparr>commonTerritories = None, regions = [(''atl'', lowRegion)]\<rparr>"

definition noGlobals :: "string globals" where
  "noGlobals = \<lparr>globalPathGenerator = None\<rparr>"

section \<open>Properties of the object model\<close>

lemma mset_Object_entries: "mset (Object_entries ob) = mset ob"
  by (simp add: Object_entries_def)

lemma set_Object_entries: "set (Object_entries ob) = set ob"
  by (metis mset_Object_entries set_mset_mset)

lemma mset_Object_keys: "mset (Object_keys ob) = mset (map fst ob)"
  unfolding Object_keys_def by (metis mset_Object_entries mset_map)

lemma set_Object_keys: "set (Object_keys ob) = fst ` set ob"
  by (metis mset_Object_keys set_mset_mset set_map)

lemma distinct_Object_keys: "distinct (Object_keys ob) = distinct (map fst ob)"
  by (metis mset_Object_keys mset_eq_imp_distinct_iff)

lemma Object_entries_plain:
  "\<forall>key \<in> fst ` set ob. \<not> isArrayIndex key \<Longrightarrow> Object_entries ob = ob"
  by (simp add: Object_entries_def filter_empty_conv)

lemma obj_put_fresh: "key \<notin> fst ` set ob \<Longrightarrow> obj_put key v ob = ob @ [(key, v)]"
  by (induction ob) auto

lemma map_of_obj_put: "map_of (obj_put key v ob) = (map_of ob)(key \<mapsto> v)"
  by (induction ob) (auto simp: fun_eq_iff)

lemma keys_obj_put: "fst ` set (obj_put key v ob) = insert key (fst ` set ob)"
  by (induction ob) auto


lemma map_of_tabulate:
  "k \<in> set ks \<Longrightarrow> map_of (map (\<lambda>k. (k, f k)) ks) k = Some (f k)"
  by (induction ks) auto

lemma tabulate_map_of:
  "distinct (map fst ps) \<Longrightarrow> (\<lambda>k. (k, the (map_of ps k))) ` fst ` set ps = set ps"
  by (force simp: image_iff)

section \<open>Properties of the key-sorting script\<close>

text \<open>
  One pass of the \<^verbatim>\<open>reduce\<close> over keys that are pairwise different, are keys of the
  regions and are not yet in the accumulator appends them in order, except
  \<^verbatim>\<open>__proto__\<close>.
\<close>

lemma foldl_reduceStep:
  "distinct ks \<Longrightarrow> set ks \<subseteq> fst ` set rs \<Longrightarrow> set ks \<inter> fst ` set acc = {} \<Longrightarrow>
   foldl (reduceStep rs) acc ks =
     acc @ map (\<lambda>k. (k, the (map_of rs k))) (filter (\<lambda>k. k \<noteq> ''__proto__'') ks)"
proof (induction ks arbitrary: acc)
  case Nil
  then show ?case by simp
next
  case (Cons k ks)
  from Cons.prems obtain v where v: "map_of rs k = Some v"
    by (cases "map_of rs k") (auto simp: map_of_eq_None_iff)
  have fresh: "k \<notin> fst ` set acc" using Cons.prems by auto
  show ?case
  proof (cases "k = ''__proto__''")
    case True
    then have "reduceStep rs acc k = acc"
      using v by (simp add: reduceStep_def obj_get_def obj_set_def)
    with Cons True show ?thesis by simp
  next
    case False
    then have step: "reduceStep rs acc k = acc @ [(k, v)]"
      using fresh v by (simp add: reduceStep_def obj_get_def obj_set_def obj_put_fresh)
    have "set ks \<inter> fst ` set (acc @ [(k, v)]) = {}" using Cons.prems by auto
    with Cons have "foldl (reduceStep rs) (acc @ [(k, v)]) ks =
       (acc @ [(k, v)])
       @ map (\<lambda>k. (k, the (map_of rs k))) (filter (\<lambda>k. k \<noteq> ''__proto__'') ks)"
      by simp
    with step False v show ?thesis by simp
  qed
qed

lemma mset_sortedKeys: "mset (sortedKeys rs) = mset (map fst rs)"
proof -
  have "mset (sortedKeys rs) =
      filter_mset (\<lambda>key. length key = 3) (mset (Object_keys rs))
    + filter_mset (\<lambda>key. length key \<noteq> 3) (mset (Object_keys rs))"
    by (simp add: sortedKeys_def threeCharKeys_def longerKeys_def)
  then show ?thesis by (simp add: mset_Object_keys)
qed

lemma set_sortedKeys: "set (sortedKeys rs) = fst ` set rs"
  by (metis mset_sortedKeys set_mset_mset set_map)

lemma distinct_sortedKeys: "distinct (map fst rs) \<Longrightarrow> distinct (sortedKeys rs)"
  by (metis mset_sortedKeys mset_eq_imp_distinct_iff)

lemma sortedRegions_eq:
  "distinct (map fst rs) \<Longrightarrow>
   sortedRegions rs =
     map (\<lambda>k. (k, the (map_of rs k))) (filter (\<lambda>k. k \<noteq> ''__proto__'') (sortedKeys rs))"
  unfolding sortedRegions_def
  using foldl_reduceStep [of "sortedKeys rs" rs "[]"]
  by (simp add: distinct_sortedKeys set_sortedKeys)

lemma sort_cong_mset: "mset xs = mset ys \<Longrightarrow> sort xs = sort (ys :: string list)"
  by (metis properties_for_sort sorted_sort mset_sort)

text \<open>The sorted keys are a function of the collection of keys, and commute with dropping keys.\<close>

lemma sortedKeys_filter:
  assumes "mset (map fst b) = filter_mset P (mset (map fst a))"
  shows "sortedKeys b = filter P (sortedKeys a)"
proof -
  have part: "sort (filter Q (Object_keys b)) = filter P (sort (filter Q (Object_keys a)))" for Q
  proof -
    have "mset (filter Q (Object_keys b)) = mset (filter P (filter Q (Object_keys a)))"
      using assms by (simp add: mset_Object_keys filter_filter_mset conj_commute)
    then have "sort (filter Q (Object_keys b)) = sort (filter P (filter Q (Object_keys a)))"
      by (rule sort_cong_mset)
    then show ?thesis by (simp add: filter_sort)
  qed
  show ?thesis
    by (simp add: sortedKeys_def threeCharKeys_def longerKeys_def part)
qed

text \<open>
  When no key is an array index or \<^verbatim>\<open>__proto__\<close>, the rewritten object lists exactly the
  sorted keys, with the values they had.
\<close>

lemma sortedRegions_plain:
  assumes "distinct (map fst rs)"
    and "\<forall>key \<in> fst ` set rs. \<not> isArrayIndex key"
    and "''__proto__'' \<notin> fst ` set rs"
  shows "Object_entries (sortedRegions rs) = sortedRegions rs"
    and "Object_keys (sortedRegions rs) = sortedKeys rs"
    and "set (sortedRegions rs) = set rs"
proof -
  have "''__proto__'' \<notin> set (sortedKeys rs)"
    using assms(3) by (simp only: set_sortedKeys not_False_eq_True)
  then have "filter (\<lambda>k. k \<noteq> ''__proto__'') (sortedKeys rs) = sortedKeys rs"
    unfolding filter_id_conv by blast
  with assms(1) have out: "sortedRegions rs = map (\<lambda>k. (k, the (map_of rs k))) (sortedKeys rs)"
    by (simp add: sortedRegions_eq)
  then have keys: "map fst (sortedRegions rs) = sortedKeys rs"
    by (simp add: comp_def)
  have "\<forall>key \<in> fst ` set (sortedRegions rs). \<not> isArrayIndex key"
    using assms(2) keys set_sortedKeys [of rs] by (metis set_map)
  then show plain: "Object_entries (sortedRegions rs) = sortedRegions rs"
    by (rule Object_entries_plain)
  show "Object_keys (sortedRegions rs) = sortedKeys rs"
    by (simp add: Object_keys_def plain keys)
  show "set (sortedRegions rs) = set rs"
    using assms(1) by (simp add: out set_sortedKeys tabulate_map_of)
qed

text \<open>
  C8. The key-sorting step is idempotent: sorting the regions of an object that the step
  has already sorted gives the same object, with the same keys in the same order and the
  same values. (The keys of an object are pairwise different.)
\<close>

theorem sortedRegions_idempotent:
  assumes "distinct (map fst rs)"
  shows "sortedRegions (sortedRegions rs) = sortedRegions rs"
proof -
  define np where "np = (\<lambda>k. k \<noteq> ''__proto__'')"
  define K where "K = filter np (sortedKeys rs)"
  define out where "out = sortedRegions rs"
  have out: "out = map (\<lambda>k. (k, the (map_of rs k))) K"
    unfolding out_def K_def np_def using assms by (rule sortedRegions_eq)
  have keys: "map fst out = K" by (simp add: out comp_def)
  have dK: "distinct K" unfolding K_def using assms by (simp add: distinct_sortedKeys)
  have "mset (map fst out) = filter_mset np (mset (map fst rs))"
    by (simp add: keys K_def mset_sortedKeys)
  then have sk: "sortedKeys out = K" unfolding K_def by (rule sortedKeys_filter)
  have "sortedRegions out = map (\<lambda>k. (k, the (map_of out k))) (filter np (sortedKeys out))"
    unfolding np_def using dK keys by (intro sortedRegions_eq) simp
  also have "filter np (sortedKeys out) = K" by (simp add: sk K_def)
  also have "map (\<lambda>k. (k, the (map_of out k))) K = map (\<lambda>k. (k, the (map_of rs k))) K"
    by (rule map_cong) (simp_all add: out map_of_tabulate)
  finally have "sortedRegions out = out" by (simp add: out)
  then show ?thesis by (simp add: out_def)
qed

text \<open>
  The theorem at the keys of the sorting example, given in an order that is not the sorted
  one.
\<close>

theorem sortedRegions_idempotent_witness:
  "distinct (map fst [(''usa'', ''U''), (''california'', ''C''), (''can'', ''K''),
                      (''texas'', ''T''), (''gbr'', ''G'')])
   \<and> sortedRegions (sortedRegions [(''usa'', ''U''), (''california'', ''C''), (''can'', ''K''),
                                    (''texas'', ''T''), (''gbr'', ''G'')])
     = sortedRegions [(''usa'', ''U''), (''california'', ''C''), (''can'', ''K''),
                      (''texas'', ''T''), (''gbr'', ''G'')]"
proof -
  have d: "distinct (map fst [(''usa'', ''U''), (''california'', ''C''), (''can'', ''K''),
                              (''texas'', ''T''), (''gbr'', ''G'')])"
    by simp
  from d sortedRegions_idempotent [OF d] show ?thesis by (rule conjI)
qed

text \<open>
  What the rewritten mapping lists, for every object: the array indices among the sorted
  keys come first, by value, then the other sorted keys in their order; the pairs are those
  of the input except the one under \<^verbatim>\<open>__proto__\<close>.
\<close>

lemma insort_key_map:
  "insort_key f (g x) (map g xs) = map g (insort_key (\<lambda>y. f (g y)) x xs)"
  by (induction xs) auto

lemma sort_key_map: "sort_key f (map g xs) = map g (sort_key (\<lambda>y. f (g y)) xs)"
  by (induction xs) (simp_all add: insort_key_map)

lemma Object_keys_tabulate:
  "Object_keys (map (\<lambda>k. (k, h k)) ks)
     = sort_key decimalValue (filter isArrayIndex ks) @ filter (\<lambda>k. \<not> isArrayIndex k) ks"
  by (simp add: Object_keys_def Object_entries_def filter_map comp_def sort_key_map)

lemma sortedRegions_written:
  assumes "distinct (map fst rs)"
  shows "Object_keys (sortedRegions rs)
           = sort_key decimalValue
               (filter isArrayIndex (filter (\<lambda>k. k \<noteq> ''__proto__'') (sortedKeys rs)))
             @ filter (\<lambda>k. \<not> isArrayIndex k) (filter (\<lambda>k. k \<noteq> ''__proto__'') (sortedKeys rs))"
    and "set (Object_entries (sortedRegions rs)) = {p \<in> set rs. fst p \<noteq> ''__proto__''}"
proof -
  show "Object_keys (sortedRegions rs)
           = sort_key decimalValue
               (filter isArrayIndex (filter (\<lambda>k. k \<noteq> ''__proto__'') (sortedKeys rs)))
             @ filter (\<lambda>k. \<not> isArrayIndex k) (filter (\<lambda>k. k \<noteq> ''__proto__'') (sortedKeys rs))"
    unfolding sortedRegions_eq [OF assms] by (rule Object_keys_tabulate)
  have "(\<lambda>k. (k, the (map_of rs k))) ` {k \<in> fst ` set rs. k \<noteq> ''__proto__''}
        = {p \<in> set rs. fst p \<noteq> ''__proto__''}"
    using assms by (force simp: image_iff)
  then show "set (Object_entries (sortedRegions rs)) = {p \<in> set rs. fst p \<noteq> ''__proto__''}"
    by (simp add: set_Object_entries sortedRegions_eq [OF assms] set_sortedKeys)
qed

text \<open>
  Where no key is an array index or \<^verbatim>\<open>__proto__\<close>, the script does what its comments say:
  the rewritten mapping has the same key-value pairs, all 3-character keys first in
  alphabetical order (the order of the code units), then all other keys in alphabetical
  order; when every key has at least 3 characters this is the specification's order. The
  specification's example is such a mapping: the keys \<^verbatim>\<open>usa\<close>, \<^verbatim>\<open>california\<close>, \<^verbatim>\<open>can\<close>,
  \<^verbatim>\<open>texas\<close>, \<^verbatim>\<open>gbr\<close> come out as \<^verbatim>\<open>can\<close>, \<^verbatim>\<open>gbr\<close>, \<^verbatim>\<open>usa\<close>, \<^verbatim>\<open>california\<close>, \<^verbatim>\<open>texas\<close>.
\<close>

lemma sortedRegions_order:
  assumes "distinct (map fst rs)"
    and "\<forall>key \<in> fst ` set rs. \<not> isArrayIndex key"
    and "''__proto__'' \<notin> fst ` set rs"
  shows "set (Object_entries (sortedRegions rs)) = set (Object_entries rs)
       \<and> Object_keys (sortedRegions rs) =
           sort (filter (\<lambda>key. length key = 3) (Object_keys rs))
           @ sort (filter (\<lambda>key. length key \<noteq> 3) (Object_keys rs))
       \<and> ((\<forall>key \<in> fst ` set rs. 3 \<le> length key) \<longrightarrow>
            Object_keys (sortedRegions rs) = spec_key_order (Object_keys rs))"
proof -
  have order: "Object_keys (sortedRegions rs) =
           sort (filter (\<lambda>key. length key = 3) (Object_keys rs))
           @ sort (filter (\<lambda>key. length key \<noteq> 3) (Object_keys rs))"
    using sortedRegions_plain(2) [OF assms]
    by (simp add: sortedKeys_def threeCharKeys_def longerKeys_def)
  have "filter (\<lambda>key. length key \<noteq> 3) (Object_keys rs)
        = filter (\<lambda>key. 3 < length key) (Object_keys rs)"
    if "\<forall>key \<in> fst ` set rs. 3 \<le> length key"
    using that by (intro filter_cong) (auto simp: set_Object_keys)
  with order have "Object_keys (sortedRegions rs) = spec_key_order (Object_keys rs)"
    if "\<forall>key \<in> fst ` set rs. 3 \<le> length key"
    using that by (simp add: spec_key_order_def)
  moreover have "set (Object_entries (sortedRegions rs)) = set (Object_entries rs)"
    using sortedRegions_plain(3) [OF assms] by (simp add: set_Object_entries)
  ultimately show ?thesis using order by blast
qed

lemma sortedRegions_example:
  "distinct (map fst [(''usa'', ''U''), (''california'', ''C''), (''can'', ''K''),
                      (''texas'', ''T''), (''gbr'', ''G'')])
   \<and> filter isArrayIndex (map fst [(''usa'', ''U''), (''california'', ''C''), (''can'', ''K''),
                                      (''texas'', ''T''), (''gbr'', ''G'')]) = []
   \<and> ''__proto__'' \<notin> fst ` set [(''usa'', ''U''), (''california'', ''C''), (''can'', ''K''),
                                 (''texas'', ''T''), (''gbr'', ''G'')]
   \<and> Object_keys (sortedRegions [(''usa'', ''U''), (''california'', ''C''), (''can'', ''K''),
                                 (''texas'', ''T''), (''gbr'', ''G'')])
     = [''can'', ''gbr'', ''usa'', ''california'', ''texas'']"
proof -
  let ?rs = "[(''usa'', ''U''), (''california'', ''C''), (''can'', ''K''),
              (''texas'', ''T''), (''gbr'', ''G'')]"
  have d: "distinct (map fst ?rs)" by simp
  have i: "\<forall>key \<in> fst ` set ?rs. \<not> isArrayIndex key"
    by (simp add: isDigit_def less_eq_char_def)
  have p: "''__proto__'' \<notin> fst ` set ?rs" by simp
  have k: "Object_keys ?rs = [''usa'', ''california'', ''can'', ''texas'', ''gbr'']"
    by code_simp
  have s3: "sort (filter (\<lambda>key. length key = 3)
                    [''usa'', ''california'', ''can'', ''texas'', ''gbr''])
            = [''can'', ''gbr'', ''usa'']"
    by code_simp
  have s4: "sort (filter (\<lambda>key. length key \<noteq> 3)
                    [''usa'', ''california'', ''can'', ''texas'', ''gbr''])
            = [''california'', ''texas'']"
    by code_simp
  have f: "filter isArrayIndex (map fst ?rs) = []"
    using i unfolding filter_empty_conv by simp
  from sortedRegions_order [OF d i p]
  have "Object_keys (sortedRegions ?rs) = [''can'', ''gbr'', ''usa'', ''california'', ''texas'']"
    unfolding k s3 s4 by simp
  with d f p show ?thesis by blast
qed

text \<open>
  C7. The claim gives the order for every regions mapping: 3-character keys first, then
  the longer keys, each group alphabetically, with the same key-value pairs; the comments
  of the script say the same (\<^verbatim>\<open>Combine: 3-char keys first, then longer keys\<close>,
  \<^verbatim>\<open>Build sorted regions object\<close>). The script misses it where a key is an array index:
  \<^verbatim>\<open>sortedKeys\<close> is in the claimed order, but the object built from it by assignment lists
  an array index before every other key. With the keys \<^verbatim>\<open>abc\<close> and \<^verbatim>\<open>1234\<close> the rewritten
  mapping has \<^verbatim>\<open>1234\<close> first. Likewise the pair under the key \<^verbatim>\<open>__proto__\<close> is lost.
\<close>

theorem sortedRegions_index_key_first:
  "sortedKeys [(''abc'', ''A''), (''1234'', ''B'')] = [''abc'', ''1234'']
   \<and> spec_key_order (Object_keys [(''abc'', ''A''), (''1234'', ''B'')]) = [''abc'', ''1234'']
   \<and> Object_keys (sortedRegions [(''abc'', ''A''), (''1234'', ''B'')]) = [''1234'', ''abc'']
   \<and> Object_entries (sortedRegions [(''abc'', ''A''), (''__proto__'', ''P'')])
       = [(''abc'', ''A'')]"
  by code_simp

text \<open>
  The partition: a key shorter than 3 characters is in \<^verbatim>\<open>longerKeys\<close>, the 3-character
  keys are exactly \<^verbatim>\<open>threeCharKeys\<close>, both are sorted and \<^verbatim>\<open>sortedKeys\<close> has the
  3-character keys first; where no key is an array index or \<^verbatim>\<open>__proto__\<close>, the rewritten
  mapping lists the keys in that order.
\<close>

lemma shortKeys_grouped_with_longer:
  assumes "distinct (map fst rs)" and "key \<in> fst ` set rs" and "length key < 3"
  shows "key \<in> set (longerKeys rs)
       \<and> set (threeCharKeys rs) = {k \<in> fst ` set rs. length k = 3}
       \<and> set (longerKeys rs) = {k \<in> fst ` set rs. length k \<noteq> 3}
       \<and> sortedKeys rs = threeCharKeys rs @ longerKeys rs
       \<and> sorted (threeCharKeys rs) \<and> sorted (longerKeys rs)
       \<and> ((\<forall>k \<in> fst ` set rs. \<not> isArrayIndex k) \<and> ''__proto__'' \<notin> fst ` set rs
            \<longrightarrow> Object_keys (sortedRegions rs) = threeCharKeys rs @ longerKeys rs)"
proof -
  have "key \<in> set (longerKeys rs)"
    using assms(2,3) by (auto simp: longerKeys_def set_Object_keys)
  moreover have "set (threeCharKeys rs) = {k \<in> fst ` set rs. length k = 3}"
    by (auto simp: threeCharKeys_def set_Object_keys)
  moreover have "set (longerKeys rs) = {k \<in> fst ` set rs. length k \<noteq> 3}"
    by (auto simp: longerKeys_def set_Object_keys)
  moreover have "sorted (threeCharKeys rs)" "sorted (longerKeys rs)"
    by (simp_all add: longerKeys_def threeCharKeys_def)
  moreover have "Object_keys (sortedRegions rs) = threeCharKeys rs @ longerKeys rs"
    if "\<forall>k \<in> fst ` set rs. \<not> isArrayIndex k" "''__proto__'' \<notin> fst ` set rs"
    using sortedRegions_plain(2) [OF assms(1) that] by (simp add: sortedKeys_def)
  ultimately show ?thesis by (simp add: sortedKeys_def)
qed

lemma shortKeys_example:
  "distinct (map fst [(''zz'', ''Z''), (''usa'', ''U''), (''texas'', ''T''), (''can'', ''K'')])
   \<and> ''zz'' \<in> fst ` set [(''zz'', ''Z''), (''usa'', ''U''), (''texas'', ''T''), (''can'', ''K'')]
   \<and> length ''zz'' < 3
   \<and> Object_keys (sortedRegions
        [(''zz'', ''Z''), (''usa'', ''U''), (''texas'', ''T''), (''can'', ''K'')])
       = [''can'', ''usa'', ''texas'', ''zz'']"
proof -
  let ?rs = "[(''zz'', ''Z''), (''usa'', ''U''), (''texas'', ''T''), (''can'', ''K'')]"
  have d: "distinct (map fst ?rs)" by simp
  have m: "''zz'' \<in> fst ` set ?rs" by simp
  have l: "length ''zz'' < 3" by simp
  have i: "\<forall>k \<in> fst ` set ?rs. \<not> isArrayIndex k"
    by (simp add: isDigit_def less_eq_char_def)
  have p: "''__proto__'' \<notin> fst ` set ?rs" by simp
  have t: "threeCharKeys ?rs = [''can'', ''usa'']" by code_simp
  have g: "longerKeys ?rs = [''texas'', ''zz'']" by code_simp
  from shortKeys_grouped_with_longer [OF d m l] i p
  have "Object_keys (sortedRegions ?rs) = threeCharKeys ?rs @ longerKeys ?rs" by blast
  then have "Object_keys (sortedRegions ?rs) = [''can'', ''usa'', ''texas'', ''zz'']"
    unfolding t g by simp
  with d m l show ?thesis by blast
qed

text \<open>
  C10. The script partitions the keys by the test \<^verbatim>\<open>length === 3\<close>, so a key shorter than 3
  characters goes to \<^verbatim>\<open>longerKeys\<close> and follows all 3-character keys in \<^verbatim>\<open>sortedKeys\<close>, as
  the claim says. The rewritten mapping misses the claimed place where the short key is an
  array index, by the slip of C7: with the keys \<^verbatim>\<open>abc\<close> and \<^verbatim>\<open>7\<close> the key \<^verbatim>\<open>7\<close> is in
  \<^verbatim>\<open>longerKeys\<close> and last in \<^verbatim>\<open>sortedKeys\<close>, but first in the rewritten mapping.
\<close>

theorem shortKeys_index_key_first:
  "threeCharKeys [(''abc'', ''A''), (''7'', ''B'')] = [''abc'']
   \<and> longerKeys [(''abc'', ''A''), (''7'', ''B'')] = [''7'']
   \<and> sortedKeys [(''abc'', ''A''), (''7'', ''B'')] = [''abc'', ''7'']
   \<and> Object_keys (sortedRegions [(''abc'', ''A''), (''7'', ''B'')]) = [''7'', ''abc'']"
  by code_simp

section \<open>Properties of the conversion script\<close>

text \<open>None of the converting functions assigns the global: they hand back the globals they got.\<close>

lemma convertWKTToSVG_globals: "convertWKTToSVG L wkt s = Inr (p, s') \<Longrightarrow> s' = s"
  by (auto simp: convertWKTToSVG_def split: option.splits if_splits)

lemma convertAreaDev_globals: "convertAreaDev L a s = Inr (ap, s') \<Longrightarrow> s' = s"
  by (auto simp: convertAreaDev_def split: sum.splits dest: convertWKTToSVG_globals)

lemma convertAreasDev_globals: "convertAreasDev L a s = Inr (ap, s') \<Longrightarrow> s' = s"
  by (auto simp: convertAreasDev_def split: sum.splits option.splits dest: convertAreaDev_globals)

lemma convertRegionDev_globals: "convertRegionDev L r s = Inr (rp, s') \<Longrightarrow> s' = s"
  by (auto simp: convertRegionDev_def Let_def split: sum.splits option.splits
           dest: convertAreasDev_globals)


text \<open>
  For a region under a key of the object, the test of line 168 is the negation of the
  specification's inclusion test.
\<close>

lemma skipRegion_eq:
  "obj_get devRegions regionCode = Some r \<Longrightarrow>
   skipRegion devRegions regionCode = Inr (\<not> spec_included regionCode r)"
  by (auto simp: skipRegion_def spec_included_def split: option.splits)

lemma spec_included_not_proto: "spec_included regionCode r \<Longrightarrow> regionCode \<noteq> ''__proto__''"
  by (auto simp: spec_included_def)




text \<open>
  The loop: it leaves the globals alone; the keys it adds are those of the included
  entries; every entry of its result was there before or is the conversion of an entry;
  it returns when every included entry converts, and throws when one does not.
\<close>

lemma convertRegions_globals:
  "convertRegions L dev es acc s = Inr (out, s') \<Longrightarrow> s' = s"
proof (induction es arbitrary: acc)
  case Nil
  then show ?case by simp
next
  case (Cons e es)
  obtain k r where e: "e = (k, r)" by (cases e)
  from Cons.prems show ?case
    unfolding e
    by (auto split: sum.splits bool.splits dest: convertRegionDev_globals Cons.IH)
qed

lemma convertRegions_keys:
  assumes "\<forall>(k, r) \<in> set es. obj_get dev k = Some r"
    and "convertRegions L dev es acc s = Inr (out, s')"
  shows "fst ` set out = fst ` set acc \<union> {k. \<exists>r. (k, r) \<in> set es \<and> spec_included k r}"
  using assms
proof (induction es arbitrary: acc)
  case Nil
  then show ?case by simp
next
  case (Cons e es)
  obtain k r where e: "e = (k, r)" by (cases e)
  have get: "obj_get dev k = Some r" using Cons.prems(1) e by simp
  have rest: "\<forall>(k, r) \<in> set es. obj_get dev k = Some r" using Cons.prems(1) by simp
  show ?case
  proof (cases "spec_included k r")
    case False
    then have "convertRegions L dev es acc s = Inr (out, s')"
      using Cons.prems(2) by (simp add: e skipRegion_eq [OF get])
    from Cons.IH [OF rest this] False get rest show ?thesis
      by (auto simp: e)
  next
    case True
    then obtain rp where c: "convertRegionDev L r s = Inr (rp, s)"
      and run: "convertRegions L dev es (obj_set acc k rp) s = Inr (out, s')"
      using Cons.prems(2)
      by (auto simp: e skipRegion_eq [OF get] split: sum.splits dest: convertRegionDev_globals)
    have "fst ` set (obj_set acc k rp) = insert k (fst ` set acc)"
      using spec_included_not_proto [OF True] by (simp add: obj_set_def keys_obj_put)
    with Cons.IH [OF rest run] True show ?thesis
      by (auto simp: e)
  qed
qed



lemma convertRegions_succeeds:
  assumes "\<forall>(k, r) \<in> set es. obj_get dev k = Some r"
    and "\<forall>(k, r) \<in> set es. spec_included k r \<longrightarrow> (\<exists>rp. convertRegionDev L r s = Inr (rp, s))"
  shows "\<exists>out. convertRegions L dev es acc s = Inr (out, s)"
  using assms
proof (induction es arbitrary: acc)
  case Nil
  then show ?case by simp
next
  case (Cons e es)
  obtain k r where e: "e = (k, r)" by (cases e)
  have get: "obj_get dev k = Some r" using Cons.prems(1) e by simp
  have rest: "\<forall>(k, r) \<in> set es. obj_get dev k = Some r"
    "\<forall>(k, r) \<in> set es. spec_included k r \<longrightarrow> (\<exists>rp. convertRegionDev L r s = Inr (rp, s))"
    using Cons.prems by simp_all
  show ?case
  proof (cases "spec_included k r")
    case False
    with Cons.IH [OF rest, of acc] show ?thesis
      by (simp add: e skipRegion_eq [OF get])
  next
    case True
    then obtain rp where "convertRegionDev L r s = Inr (rp, s)"
      using Cons.prems(2) e by auto
    with Cons.IH [OF rest, of "obj_set acc k rp"] True show ?thesis
      by (simp add: e skipRegion_eq [OF get])
  qed
qed

lemma convertRegions_fails:
  assumes "\<forall>(k, r) \<in> set es. obj_get dev k = Some r"
    and "(k, r) \<in> set es" and "spec_included k r" and "convertRegionDev L r s = Inl e"
  shows "\<exists>e'. convertRegions L dev es acc s = Inl e'"
  using assms(1,2)
proof (induction es arbitrary: acc)
  case Nil
  then show ?case by simp
next
  case (Cons x es)
  obtain k0 r0 where x: "x = (k0, r0)" by (cases x)
  have get: "obj_get dev k0 = Some r0" using Cons.prems(1) x by simp
  have rest: "\<forall>(k, r) \<in> set es. obj_get dev k = Some r" using Cons.prems(1) by simp
  show ?case
  proof (cases "(k, r) = (k0, r0)")
    case True
    with assms(3,4) show ?thesis by (simp add: x skipRegion_eq [OF get])
  next
    case False
    then have mem: "(k, r) \<in> set es" using Cons.prems(2) x by auto
    show ?thesis
    proof (cases "spec_included k0 r0")
      case False
      with Cons.IH [OF rest mem, of acc] show ?thesis
        by (simp add: x skipRegion_eq [OF get])
    next
      case True
      show ?thesis
      proof (cases "convertRegionDev L r0 s")
        case (Inl e0)
        with True show ?thesis by (simp add: x skipRegion_eq [OF get])
      next
        case (Inr res)
        obtain rp s1 where res: "res = (rp, s1)" by (cases res)
        have "s1 = s" using Inr res convertRegionDev_globals by blast
        with Cons.IH [OF rest mem, of "obj_set acc k0 rp"] True Inr res show ?thesis
          by (simp add: x skipRegion_eq [OF get])
      qed
    qed
  qed
qed

text \<open>In an object the entry that the enumeration yields under a key is the one a read yields.\<close>

lemma entries_obj_get:
  "distinct (map fst ob) \<Longrightarrow> \<forall>(k, r) \<in> set (Object_entries ob). obj_get ob k = Some r"
  by (auto simp: set_Object_entries obj_get_def)

lemma obj_get_iff: "distinct (map fst ob) \<Longrightarrow> obj_get ob k = Some r \<longleftrightarrow> (k, r) \<in> set ob"
  by (auto simp: obj_get_def)

text \<open>What \<^const>\<open>convertWorldData\<close> returns, in terms of the loop.\<close>

lemma convertWorldData_eq:
  "convertWorldData L d s =
     (case convertRegions L (regions d) (Object_entries (regions d)) []
             (initializeGlobalProjection L d s) of
        Inl e \<Rightarrow> Inl e
      | Inr (prodRegions, s2) \<Rightarrow>
          Inr (\<lparr>commonTerritories = commonTerritories d, regions = prodRegions,
                width = 1600, height = 900\<rparr>, s2))"
  by (auto simp: convertWorldData_def Let_def WIDTH_def HEIGHT_def split: option.splits sum.splits)

lemma collectFeatures_none:
  "\<forall>region \<in> set rs. highResWKT region = None \<Longrightarrow> collectFeatures L rs fs = fs"
  by (induction rs arbitrary: fs) auto

text \<open>The scripts on the concrete inputs.\<close>

lemma demo_entries:
  "Object_entries (regions demoWorld) = regions demoWorld"
  by (rule Object_entries_plain) (simp add: demoWorld_def isDigit_def less_eq_char_def)

lemma demo_generator:
  "initializeGlobalProjection demo_lib demoWorld noGlobals
     = \<lparr>globalPathGenerator = Some (geoPath demo_lib ((1600, 900), 2))\<rparr>"
  unfolding initializeGlobalProjection_def Object_values_def demo_entries
  by (simp add: demoWorld_def noGlobals_def highResWKT_def lowRegion_def fullRegion_def
        demoArea_def demo_lib_def WIDTH_def HEIGHT_def)

lemma demo_fullRegion:
  "convertRegionDev demo_lib fullRegion \<lparr>globalPathGenerator = Some (geoPath demo_lib p)\<rparr>
     = Inr (\<lparr>regionName = ''France'',
             areas = \<lparr>low_res = None,
                      medium_res = Some \<lparr>areaSVG = ''M((0 0,2 0,2 2,0 0))Z''\<rparr>,
                      high_res = None\<rparr>,
             disputedRegions = Some demoDispute\<rparr>,
            \<lparr>globalPathGenerator = Some (geoPath demo_lib p)\<rparr>)"
  by (simp add: convertRegionDev_def convertAreasDev_def convertAreaDev_def convertWKTToSVG_def
        fullRegion_def demoArea_def demo_lib_def)

text \<open>
  C1, as stated, fails: the claim is for every input dataset, but a region that passes the
  test is in no output when the run throws. In the dataset of the regions \<^verbatim>\<open>bad\<close> and
  \<^verbatim>\<open>fra\<close>, the region \<^verbatim>\<open>fra\<close> has a code of 3 characters and a medium-resolution area, and
  the run ends with the exception of \<^verbatim>\<open>bad\<close> and returns no dataset.
\<close>

theorem convertWorldData_includes_counterexample:
  "obj_get (regions brokenWorld) ''fra'' = Some fullRegion
   \<and> spec_included ''fra'' fullRegion
   \<and> convertWorldData demo_lib brokenWorld noGlobals
       = Inl (Error ''Failed to parse WKT: POLYGO((...'')"
proof -
  have "convertWorldData demo_lib brokenWorld noGlobals
       = Inl (Error ''Failed to parse WKT: POLYGO((...'')"
    unfolding convertWorldData_eq
    by (simp add: brokenWorld_def Object_entries_def isDigit_def less_eq_char_def skipRegion_def
        obj_get_def brokenRegion_def convertRegionDev_def convertAreasDev_def convertAreaDev_def
        convertWKTToSVG_def demoArea_def demo_lib_def)
  then show ?thesis
    by (simp add: brokenWorld_def obj_get_def spec_included_def fullRegion_def)
qed

text \<open>
  C1, amended. For every input dataset (the keys of its regions pairwise different),
  \<^const>\<open>convertWorldData\<close> returns a dataset exactly when every region that passes the test
  converts: the code has at most 3 characters, the region has \<^verbatim>\<open>areas\<close> and the areas have a
  \<^verbatim>\<open>medium-res\<close> entry. The regions that fail the test are skipped without error. In a
  dataset that is returned, a region code is included if and only if its region passes the
  test.
\<close>

theorem convertWorldData_includes:
  assumes "distinct (map fst (regions d))"
  shows "((\<exists>out s'. convertWorldData L d s = Inr (out, s')) \<longleftrightarrow>
          (\<forall>(code, region) \<in> set (regions d). spec_included code region \<longrightarrow>
            (\<exists>regionProd s'. convertRegionDev L region (initializeGlobalProjection L d s)
                               = Inr (regionProd, s'))))
       \<and> (\<forall>out s' code. convertWorldData L d s = Inr (out, s') \<longrightarrow>
            (code \<in> set (Object_keys (regions out)) \<longleftrightarrow>
             (\<exists>region. obj_get (regions d) code = Some region \<and> spec_included code region)))"
proof -
  let ?s1 = "initializeGlobalProjection L d s"
  let ?es = "Object_entries (regions d)"
  let ?all = "\<forall>(code, region) \<in> set (regions d). spec_included code region \<longrightarrow>
            (\<exists>regionProd s'. convertRegionDev L region ?s1 = Inr (regionProd, s'))"
  have get: "\<forall>(k, r) \<in> set ?es. obj_get (regions d) k = Some r"
    using assms by (rule entries_obj_get)
  have returns: "\<exists>out s'. convertWorldData L d s = Inr (out, s')" if ?all
  proof -
    from that have "\<forall>(k, r) \<in> set ?es. spec_included k r \<longrightarrow>
            (\<exists>rp. convertRegionDev L r ?s1 = Inr (rp, ?s1))"
      using convertRegionDev_globals by (fastforce simp: set_Object_entries)
    from convertRegions_succeeds [OF get this, of "[]"]
    show ?thesis by (auto simp: convertWorldData_eq)
  qed
  have converts: "\<exists>regionProd s'. convertRegionDev L region ?s1 = Inr (regionProd, s')"
    if run: "convertWorldData L d s = Inr (out, s')"
      and mem: "(code, region) \<in> set (regions d)" and inc: "spec_included code region"
    for out s' code region
  proof (cases "convertRegionDev L region ?s1")
    case (Inl e)
    have "(code, region) \<in> set ?es" using mem by (simp add: set_Object_entries)
    from convertRegions_fails [OF get this inc Inl, of "[]"] run show ?thesis
      by (auto simp: convertWorldData_eq)
  next
    case (Inr res)
    then show ?thesis by (cases res) auto
  qed
  have keys: "code \<in> set (Object_keys (regions out)) \<longleftrightarrow>
             (\<exists>region. obj_get (regions d) code = Some region \<and> spec_included code region)"
    if "convertWorldData L d s = Inr (out, s')" for out s' code
  proof -
    from that have run: "convertRegions L (regions d) ?es [] ?s1 = Inr (regions out, s')"
      by (auto simp: convertWorldData_eq split: sum.splits)
    from convertRegions_keys [OF get run]
    have "fst ` set (regions out) = {k. \<exists>r. (k, r) \<in> set (regions d) \<and> spec_included k r}"
      by (simp add: set_Object_entries)
    then show ?thesis using assms by (simp add: set_Object_keys obj_get_iff)
  qed
  from returns converts keys show ?thesis by blast
qed

text \<open>
  The theorem on a dataset of three regions: \<^verbatim>\<open>atl\<close> has a low-resolution area only,
  \<^verbatim>\<open>fra\<close> has all three, and \<^verbatim>\<open>fra-idf\<close> has all three under a code of 7 characters.
\<close>

theorem convertWorldData_includes_witness:
  "distinct (map fst (regions demoWorld))
   \<and> (\<exists>out s'. convertWorldData demo_lib demoWorld noGlobals = Inr (out, s')
        \<and> ''fra'' \<in> set (Object_keys (regions out))
        \<and> ''atl'' \<notin> set (Object_keys (regions out))
        \<and> ''fra-idf'' \<notin> set (Object_keys (regions out)))"
proof -
  have d: "distinct (map fst (regions demoWorld))" by (simp add: demoWorld_def)
  note inc = convertWorldData_includes [OF d, of demo_lib noGlobals]
  have "\<forall>(code, region) \<in> set (regions demoWorld). spec_included code region \<longrightarrow>
          (\<exists>regionProd s'. convertRegionDev demo_lib region
                           (initializeGlobalProjection demo_lib demoWorld noGlobals)
                         = Inr (regionProd, s'))"
    unfolding demo_generator
    by (simp add: demoWorld_def spec_included_def lowRegion_def demo_fullRegion)
  with inc obtain out s'
    where out: "convertWorldData demo_lib demoWorld noGlobals = Inr (out, s')"
    by blast
  have fra: "\<exists>region. obj_get (regions demoWorld) ''fra'' = Some region
                  \<and> spec_included ''fra'' region"
    by (simp add: obj_get_def demoWorld_def spec_included_def fullRegion_def)
  have atl: "\<not> (\<exists>region. obj_get (regions demoWorld) ''atl'' = Some region
                  \<and> spec_included ''atl'' region)"
    by (simp add: obj_get_def demoWorld_def spec_included_def lowRegion_def)
  have idf: "\<not> (\<exists>region. obj_get (regions demoWorld) ''fra-idf'' = Some region
                  \<and> spec_included ''fra-idf'' region)"
    by (simp add: obj_get_def demoWorld_def spec_included_def)
  from inc out fra atl idf
  have "''fra'' \<in> set (Object_keys (regions out))
        \<and> ''atl'' \<notin> set (Object_keys (regions out))
        \<and> ''fra-idf'' \<notin> set (Object_keys (regions out))"
    by blast
  with d out show ?thesis by blast
qed

text \<open>
  C2, as stated, fails: \<^const>\<open>initializeGlobalProjection\<close> has no check of the collected
  geometries and throws nothing. On a dataset whose only region has a low-resolution area
  and nothing else, no region supplies a high-resolution geometry; the run fits the
  projection to no geometry at all, goes through the loop, skips the region and returns a
  dataset without regions. The path generator is never called on this input.
\<close>

theorem initializeGlobalProjection_no_high_res_counterexample:
  "map (\<lambda>p. highResWKT (snd p)) (regions lowOnlyWorld) = [None]
   \<and> convertWorldData demo_lib lowOnlyWorld noGlobals
     = Inr (\<lparr>commonTerritories = None, regions = [], width = 1600, height = 900\<rparr>,
            \<lparr>globalPathGenerator = Some (geoPath demo_lib ((1600, 900), 0))\<rparr>)"
  unfolding convertWorldData_eq
  by (simp add: lowOnlyWorld_def Object_entries_def Object_values_def isDigit_def
        less_eq_char_def skipRegion_def initializeGlobalProjection_def highResWKT_def
        obj_get_def lowRegion_def demoArea_def demo_lib_def noGlobals_def
        WIDTH_def HEIGHT_def)

text \<open>
  C2, amended. If no region of the input supplies a high-resolution geometry,
  \<^const>\<open>initializeGlobalProjection\<close> signals no error: it fits the projection to the empty
  collection of geometries and installs the path generator of that projection, and
  \<^const>\<open>convertWorldData\<close> goes on to the loop over all regions with that generator, so that
  it throws only if the conversion of a region does.
\<close>

theorem initializeGlobalProjection_no_high_res:
  assumes "\<forall>region \<in> snd ` set (regions d). highResWKT region = None"
  shows "initializeGlobalProjection L d s
           = s\<lparr>globalPathGenerator := Some (geoPath L (fitSize L (1600, 900) []))\<rparr>
       \<and> convertWorldData L d s =
           (case convertRegions L (regions d) (Object_entries (regions d)) []
                   (s\<lparr>globalPathGenerator := Some (geoPath L (fitSize L (1600, 900) []))\<rparr>) of
              Inl e \<Rightarrow> Inl e
            | Inr (prodRegions, s2) \<Rightarrow>
                Inr (\<lparr>commonTerritories = commonTerritories d, regions = prodRegions,
                      width = 1600, height = 900\<rparr>, s2))"
proof -
  have "set (Object_values (regions d)) = snd ` set (regions d)"
    by (simp add: Object_values_def set_Object_entries)
  with assms have "collectFeatures L (Object_values (regions d)) [] = []"
    by (intro collectFeatures_none) simp
  then have "initializeGlobalProjection L d s
           = s\<lparr>globalPathGenerator := Some (geoPath L (fitSize L (1600, 900) []))\<rparr>"
    by (simp add: initializeGlobalProjection_def WIDTH_def HEIGHT_def)
  then show ?thesis by (simp add: convertWorldData_eq)
qed

theorem initializeGlobalProjection_no_high_res_witness:
  "map (\<lambda>p. highResWKT (snd p)) (regions noHighResWorld) = [None]
   \<and> initializeGlobalProjection demo_lib noHighResWorld noGlobals
       = \<lparr>globalPathGenerator = Some (geoPath demo_lib (fitSize demo_lib (1600, 900) []))\<rparr>"
proof -
  have h: "\<forall>region \<in> snd ` set (regions noHighResWorld). highResWKT region = None"
    by (simp add: noHighResWorld_def highResWKT_def mediumRegion_def)
  have m: "map (\<lambda>p. highResWKT (snd p)) (regions noHighResWorld) = [None]"
    by (simp add: noHighResWorld_def highResWKT_def mediumRegion_def)
  from initializeGlobalProjection_no_high_res [OF h, of demo_lib noGlobals]
  have "initializeGlobalProjection demo_lib noHighResWorld noGlobals
       = \<lparr>globalPathGenerator = Some (geoPath demo_lib (fitSize demo_lib (1600, 900) []))\<rparr>"
    by (simp add: noGlobals_def)
  with m show ?thesis by (rule conjI)
qed

text \<open>
  C3, as stated, fails: nothing catches the exception of \<^const>\<open>convertWKTToSVG\<close>. In a
  dataset of two regions whose first has a medium-resolution text that does not parse,
  the run ends with that exception and returns no dataset, although the second region
  converts.
\<close>

theorem parse_failure_aborts_batch_counterexample:
  "convertWorldData demo_lib brokenWorld noGlobals
     = Inl (Error ''Failed to parse WKT: POLYGO((...'')"
  unfolding convertWorldData_eq
  by (simp add: brokenWorld_def Object_entries_def isDigit_def less_eq_char_def skipRegion_def
        obj_get_def brokenRegion_def convertRegionDev_def convertAreasDev_def convertAreaDev_def
        convertWKTToSVG_def demoArea_def demo_lib_def)

text \<open>
  C3, amended. During the batch conversion a geometry parse failure on one included
  region (a code of at most 3 characters, with a medium-resolution area) aborts the whole
  batch: \<^const>\<open>convertWorldData\<close> throws and returns no dataset.
\<close>

theorem parse_failure_aborts_batch:
  assumes "distinct (map fst (regions d))"
    and "obj_get (regions d) code = Some region"
    and "length code \<le> 3"
    and "areas region = Some areasDev"
    and "medium_res areasDev = Some areaDev"
    and "parse L (areaWKT areaDev) = None"
  shows "\<exists>e. convertWorldData L d s = Inl e"
proof -
  let ?s1 = "initializeGlobalProjection L d s"
  let ?es = "Object_entries (regions d)"
  have get: "\<forall>(k, r) \<in> set ?es. obj_get (regions d) k = Some r"
    using assms(1) by (rule entries_obj_get)
  have mem: "(code, region) \<in> set ?es"
    using assms(1,2) by (simp add: set_Object_entries obj_get_iff)
  have inc: "spec_included code region"
    using assms(3-5) by (simp add: spec_included_def)
  have "convertRegionDev L region ?s1
        = Inl (Error (''Failed to parse WKT: '' @ take 100 (areaWKT areaDev) @ ''...''))"
    using assms(4-6)
    by (simp add: convertRegionDev_def convertAreasDev_def convertAreaDev_def convertWKTToSVG_def)
  from convertRegions_fails [OF get mem inc this, of "[]"]
  show ?thesis by (auto simp: convertWorldData_eq)
qed

theorem parse_failure_aborts_batch_witness:
  "distinct (map fst (regions brokenWorld))
   \<and> obj_get (regions brokenWorld) ''bad'' = Some brokenRegion
   \<and> length ''bad'' \<le> 3
   \<and> areas brokenRegion
       = Some \<lparr>low_res = None, medium_res = Some (demoArea ''POLYGO((''), high_res = None\<rparr>
   \<and> parse demo_lib (areaWKT (demoArea ''POLYGO((''))  = None
   \<and> (\<exists>e. convertWorldData demo_lib brokenWorld noGlobals = Inl e)"
proof -
  have d: "distinct (map fst (regions brokenWorld))" by (simp add: brokenWorld_def)
  have g: "obj_get (regions brokenWorld) ''bad'' = Some brokenRegion"
    by (simp add: brokenWorld_def obj_get_def)
  have l: "length ''bad'' \<le> 3" by simp
  have a: "areas brokenRegion
       = Some \<lparr>low_res = None, medium_res = Some (demoArea ''POLYGO((''), high_res = None\<rparr>"
    by (simp add: brokenRegion_def)
  have m: "medium_res \<lparr>low_res = None, medium_res = Some (demoArea ''POLYGO((''),
                       high_res = None\<rparr> = Some (demoArea ''POLYGO(('')"
    by simp
  have p: "parse demo_lib (areaWKT (demoArea ''POLYGO((''))  = None"
    by (simp add: demo_lib_def demoArea_def)
  from parse_failure_aborts_batch [OF d g l a m p, of noGlobals] d g l a p
  show ?thesis by blast
qed

text \<open>
  C4. Once the global path generator is set, \<^const>\<open>convertWKTToSVG\<close> throws the error that
  names the first 100 characters of the text as unparsable exactly when the parser returns
  nothing, throws the error that no path could be generated for the text exactly when the
  text parses and the generator draws nothing for it (\<^verbatim>\<open>null\<close> or the empty string), and
  otherwise returns the path string of the generator.
\<close>

theorem convertWKTToSVG_cases:
  assumes "globalPathGenerator s = Some generator"
  shows "(convertWKTToSVG L wkt s
            = Inl (Error (''Failed to parse WKT: '' @ take 100 wkt @ ''...''))
          \<longleftrightarrow> parse L wkt = None)
       \<and> (convertWKTToSVG L wkt s
            = Inl (Error (''Failed to generate SVG path for WKT: '' @ take 100 wkt @ ''...''))
          \<longleftrightarrow> (\<exists>geojson. parse L wkt = Some geojson
                 \<and> (generator geojson = None \<or> generator geojson = Some [])))
       \<and> (\<forall>geojson svgPath. parse L wkt = Some geojson \<and> generator geojson = Some svgPath
             \<and> svgPath \<noteq> [] \<longrightarrow> convertWKTToSVG L wkt s = Inr (svgPath, s))"
  using assms by (auto simp: convertWKTToSVG_def split: option.splits)

theorem convertWKTToSVG_cases_witness:
  "globalPathGenerator \<lparr>globalPathGenerator = Some (geoPath demo_lib ((1600, 900), 2))\<rparr>
     = Some (geoPath demo_lib ((1600, 900), 2))
   \<and> parse demo_lib ''POINT(1 1)'' = None
   \<and> convertWKTToSVG demo_lib ''POINT(1 1)''
        \<lparr>globalPathGenerator = Some (geoPath demo_lib ((1600, 900), 2))\<rparr>
       = Inl (Error (''Failed to parse WKT: '' @ take 100 ''POINT(1 1)'' @ ''...''))"
proof -
  let ?s = "\<lparr>globalPathGenerator = Some (geoPath demo_lib ((1600, 900), 2))\<rparr>"
  have g: "globalPathGenerator ?s = Some (geoPath demo_lib ((1600, 900), 2))" by simp
  have p: "parse demo_lib ''POINT(1 1)'' = None" by (simp add: demo_lib_def)
  from convertWKTToSVG_cases [OF g, of demo_lib "''POINT(1 1)''"] g p
  show ?thesis by blast
qed



text \<open>The calls of \<^verbatim>\<open>convertWKTToSVG\<close> as a relation.\<close>

lemma convertWKTToSVG_call_global:
  "convertWKTToSVG_call parse_call global wkt r global' \<Longrightarrow> global' = global"
  by (induction rule: convertWKTToSVG_call.induct) simp_all

text \<open>
  Where the libraries are the functions of the model above, a call relates the text to
  the result that \<^const>\<open>convertWKTToSVG\<close> computes, and to nothing else.
\<close>

lemma convertWKTToSVG_call_iff:
  "convertWKTToSVG_call (\<lambda>w g. parse L w = g)
     (map_option (\<lambda>generator g p. generator g = p) (globalPathGenerator s)) wkt r global'
   \<longleftrightarrow> map_sum id fst (convertWKTToSVG L wkt s) = r
       \<and> global' = map_option (\<lambda>generator g p. generator g = p) (globalPathGenerator s)"
  by (auto simp: convertWKTToSVG_def convertWKTToSVG_call.simps split: option.splits)

text \<open>
  C9. \<^verbatim>\<open>convertWKTToSVG\<close> is deterministic for a fixed projection: when the parser yields
  one reading of a text and the path generator held by the global yields one outcome for
  a geometry, two calls in a row with the same text have the same result, the path string
  when the first returns one, and the global is after them what it was before. Here the
  libraries are relations, so that no call is a function of its arguments by the way it
  is written down.
\<close>

theorem convertWKTToSVG_call_deterministic:
  assumes "\<forall>w g1 g2. parse_call w g1 \<and> parse_call w g2 \<longrightarrow> g1 = g2"
    and "\<forall>generator_call g p1 p2. global = Some generator_call
           \<and> generator_call g p1 \<and> generator_call g p2 \<longrightarrow> p1 = p2"
    and "convertWKTToSVG_call parse_call global wkt r1 global1"
    and "convertWKTToSVG_call parse_call global1 wkt r2 global2"
  shows "r2 = r1 \<and> global2 = global"
proof -
  have g1: "global1 = global" using assms(3) by (rule convertWKTToSVG_call_global)
  have g2: "global2 = global" using assms(4) g1 convertWKTToSVG_call_global by blast
  have parse_det: "g1 = g2" if "parse_call w g1" "parse_call w g2" for w g1 g2
    using assms(1) that by blast
  have gen_det: "p1 = p2"
    if "global = Some generator_call" "generator_call g p1" "generator_call g p2"
    for generator_call g p1 p2
    using assms(2) that by blast
  from assms(3) assms(4) [unfolded g1] have "r2 = r1"
  proof (cases rule: convertWKTToSVG_call.cases [case_product convertWKTToSVG_call.cases])
  qed (auto dest: parse_det gen_det)
  with g2 show ?thesis by simp
qed

text \<open>
  The theorem on the stand-in libraries, taken as relations: the call returns the path,
  and no call with this text has another result.
\<close>

theorem convertWKTToSVG_call_deterministic_witness:
  "convertWKTToSVG_call (\<lambda>w g. parse demo_lib w = g)
      (Some (\<lambda>g p. geoPath demo_lib ((1600, 900), 2) g = p))
      ''POLYGON((0 0,2 0,2 2,0 0))'' (Inr ''M((0 0,2 0,2 2,0 0))Z'')
      (Some (\<lambda>g p. geoPath demo_lib ((1600, 900), 2) g = p))
   \<and> (\<exists>!r. \<exists>global'. convertWKTToSVG_call (\<lambda>w g. parse demo_lib w = g)
      (Some (\<lambda>g p. geoPath demo_lib ((1600, 900), 2) g = p))
      ''POLYGON((0 0,2 0,2 2,0 0))'' r global')"
proof -
  let ?P = "\<lambda>w g. parse demo_lib w = g"
  let ?G = "Some (\<lambda>g p. geoPath demo_lib ((1600, 900), 2) g = p)"
  let ?wkt = "''POLYGON((0 0,2 0,2 2,0 0))''"
  have pd: "\<forall>w g1 g2. ?P w g1 \<and> ?P w g2 \<longrightarrow> g1 = g2" by simp
  have gd: "\<forall>generator_call g p1 p2. ?G = Some generator_call
           \<and> generator_call g p1 \<and> generator_call g p2 \<longrightarrow> p1 = p2"
    by auto
  have first: "convertWKTToSVG_call ?P ?G ?wkt (Inr ''M((0 0,2 0,2 2,0 0))Z'') ?G"
    by (rule convertWKTToSVG_call.path [where geojson = "''((0 0,2 0,2 2,0 0))''"])
       (simp_all add: demo_lib_def)
  have "r = Inr ''M((0 0,2 0,2 2,0 0))Z''"
    if "convertWKTToSVG_call ?P ?G ?wkt r global'" for r global'
    using convertWKTToSVG_call_deterministic [OF pd gd first that] by simp
  with first show ?thesis by blast
qed

section \<open>Properties of the resolution-stripping script\<close>

lemma keys_obj_modify: "map fst (obj_modify key f ob) = map fst ob"
  by (simp add: obj_modify_def comp_def if_distrib [of fst] cong: if_cong)

lemma map_of_map_values:
  "map_of ps k = Some v \<Longrightarrow> map_of (map (\<lambda>p. (fst p, f (snd p))) ps) k = Some (f v)"
  by (induction ps) (auto split: if_splits)

lemma stripLoop_eq:
  "distinct ks \<Longrightarrow> set ks \<subseteq> fst ` set rs \<Longrightarrow>
   stripLoop ks rs
     = Inr (map (\<lambda>p. if fst p \<in> set ks then (fst p, stripRegion (snd p)) else p) rs)"
proof (induction ks arbitrary: rs)
  case Nil
  then show ?case by simp
next
  case (Cons k ks)
  from Cons.prems obtain region where get: "obj_get rs k = Some region"
    by (cases "obj_get rs k") (auto simp: obj_get_def map_of_eq_None_iff)
  have "set ks \<subseteq> fst ` set (obj_modify k stripRegion rs)"
    using Cons.prems(2) keys_obj_modify [of k stripRegion rs] by (metis set_map set_subset_Cons subset_trans)
  with Cons have "stripLoop ks (obj_modify k stripRegion rs)
     = Inr (map (\<lambda>p. if fst p \<in> set ks then (fst p, stripRegion (snd p)) else p)
              (obj_modify k stripRegion rs))"
    by simp
  moreover have "map (\<lambda>p. if fst p \<in> set ks then (fst p, stripRegion (snd p)) else p)
              (obj_modify k stripRegion rs)
       = map (\<lambda>p. if fst p \<in> set (k # ks) then (fst p, stripRegion (snd p)) else p) rs"
    using Cons.prems(1) by (auto simp: obj_modify_def)
  ultimately show ?case using get by simp
qed

lemma stripHighRes_eq:
  assumes "distinct (map fst (regions data))"
  shows "stripHighRes data
           = Inr (data\<lparr>regions := map (\<lambda>p. (fst p, stripRegion (snd p))) (regions data)\<rparr>)"
proof -
  have "stripLoop (Object_keys (regions data)) (regions data)
     = Inr (map (\<lambda>p. if fst p \<in> set (Object_keys (regions data))
                      then (fst p, stripRegion (snd p)) else p) (regions data))"
    using assms by (intro stripLoop_eq) (simp_all add: distinct_Object_keys set_Object_keys)
  also have "map (\<lambda>p. if fst p \<in> set (Object_keys (regions data))
                      then (fst p, stripRegion (snd p)) else p) (regions data)
     = map (\<lambda>p. (fst p, stripRegion (snd p))) (regions data)"
    by (rule map_cong) (simp_all add: set_Object_keys)
  finally show ?thesis by (simp add: stripHighRes_def)
qed

text \<open>
  C5, as stated, fails: the assignment is guarded by
  \<^verbatim>\<open>region.areas && region.areas['high-res']\<close>. A region with a medium-resolution area and
  no high-resolution one is left as it is, its medium-resolution area included.
\<close>

theorem stripHighRes_regions_counterexample:
  "stripHighRes noHighResWorld = Inr noHighResWorld
   \<and> regions noHighResWorld = [(''and'', mediumRegion)]
   \<and> areas mediumRegion
       = Some \<lparr>low_res = None,
               medium_res = Some (demoArea ''POLYGON((5 5,6 5,6 6,5 5))''),
               high_res = None\<rparr>"
  by (simp add: stripHighRes_def noHighResWorld_def Object_keys_def Object_entries_def
        isDigit_def less_eq_char_def obj_get_def obj_modify_def stripRegion_def mediumRegion_def)

text \<open>
  C5, amended. The resolution-stripping step keeps the keys of the regions and their
  order, and for every region of the input that has a \<^verbatim>\<open>high-res\<close> area it retains only
  that area, dropping \<^verbatim>\<open>low-res\<close> and \<^verbatim>\<open>medium-res\<close>; a region without a \<^verbatim>\<open>high-res\<close> area
  is left unchanged.
\<close>

theorem stripHighRes_regions:
  assumes "distinct (map fst (regions data))"
  shows "\<exists>rs'. stripHighRes data = Inr (data\<lparr>regions := rs'\<rparr>)
       \<and> map fst rs' = map fst (regions data)
       \<and> (\<forall>code region. obj_get (regions data) code = Some region \<longrightarrow>
            (\<forall>areasDev h. areas region = Some areasDev \<and> high_res areasDev = Some h \<longrightarrow>
               obj_get rs' code
                 = Some (region\<lparr>areas := Some \<lparr>low_res = None, medium_res = None,
                                               high_res = Some h\<rparr>\<rparr>))
          \<and> (highResWKT region = None \<longrightarrow> obj_get rs' code = Some region))"
proof -
  let ?rs' = "map (\<lambda>p. (fst p, stripRegion (snd p))) (regions data)"
  have get: "obj_get ?rs' code = Some (stripRegion region)"
    if "obj_get (regions data) code = Some region" for code region
    using that unfolding obj_get_def by (rule map_of_map_values)
  have "map fst ?rs' = map fst (regions data)" by (simp add: comp_def)
  moreover have "stripRegion region
       = region\<lparr>areas := Some \<lparr>low_res = None, medium_res = None, high_res = Some h\<rparr>\<rparr>"
    if "areas region = Some areasDev \<and> high_res areasDev = Some h" for region areasDev h
    using that by (simp add: stripRegion_def)
  moreover have "stripRegion region = region" if "highResWKT region = None" for region
    using that by (auto simp: stripRegion_def highResWKT_def split: option.splits)
  ultimately show ?thesis
    using stripHighRes_eq [OF assms] get by (intro exI [of _ ?rs']) auto
qed

theorem stripHighRes_regions_witness:
  "distinct (map fst (regions demoWorld))
   \<and> obj_get (regions demoWorld) ''fra'' = Some fullRegion
   \<and> (\<exists>rs'. stripHighRes demoWorld = Inr (demoWorld\<lparr>regions := rs'\<rparr>)
        \<and> obj_get rs' ''fra''
            = Some (fullRegion\<lparr>areas := Some \<lparr>low_res = None, medium_res = None,
                 high_res = Some (demoArea ''POLYGON((0 0,3 0,3 3,0 0))'')\<rparr>\<rparr>))"
proof -
  have d: "distinct (map fst (regions demoWorld))" by (simp add: demoWorld_def)
  have g: "obj_get (regions demoWorld) ''fra'' = Some fullRegion"
    by (simp add: demoWorld_def obj_get_def)
  have a: "areas fullRegion = Some \<lparr>low_res = Some (demoArea ''POLYGON((0 0,1 0,1 1,0 0))''),
                    medium_res = Some (demoArea ''POLYGON((0 0,2 0,2 2,0 0))''),
                    high_res = Some (demoArea ''POLYGON((0 0,3 0,3 3,0 0))'')\<rparr>"
    by (simp add: fullRegion_def)
  from stripHighRes_regions [OF d] obtain rs'
    where rs': "stripHighRes demoWorld = Inr (demoWorld\<lparr>regions := rs'\<rparr>)"
      and all: "\<forall>code region. obj_get (regions demoWorld) code = Some region \<longrightarrow>
            (\<forall>areasDev h. areas region = Some areasDev \<and> high_res areasDev = Some h \<longrightarrow>
               obj_get rs' code
                 = Some (region\<lparr>areas := Some \<lparr>low_res = None, medium_res = None,
                                               high_res = Some h\<rparr>\<rparr>))
          \<and> (highResWKT region = None \<longrightarrow> obj_get rs' code = Some region)"
    by blast
  from all g have "\<forall>areasDev h. areas fullRegion = Some areasDev \<and> high_res areasDev = Some h
            \<longrightarrow> obj_get rs' ''fra''
                 = Some (fullRegion\<lparr>areas := Some \<lparr>low_res = None, medium_res = None,
                                                   high_res = Some h\<rparr>\<rparr>)"
    by blast
  with a have "obj_get rs' ''fra''
            = Some (fullRegion\<lparr>areas := Some \<lparr>low_res = None, medium_res = None,
                 high_res = Some (demoArea ''POLYGON((0 0,3 0,3 3,0 0))'')\<rparr>\<rparr>)"
    by simp
  with d g rs' show ?thesis by blast
qed

end
